theory Spec2Isabelle
  imports Main "HOL-Library.Sublist" "HOL-Library.Char_ord" "HOL-Library.List_Lexorder"
    "HOL-Library.Product_Lexorder"
begin

section \<open>Strings\<close>

text \<open>
  Python strings are modelled as lists of Latin-1 code points (\<open>char\<close>).
  \<open>str.lower()\<close> on such a string works character by character: the ASCII capitals
  \<open>A..Z\<close> (65..90) and the Latin-1 capitals U+00C0..U+00DE without the multiplication
  sign U+00D7 move up by 32; every other code point below 256 is its own lower case.
\<close>

definition lower_char :: "char \<Rightarrow> char" where
  "lower_char c =
     (let n = (of_char c :: nat)
      in if (65 \<le> n \<and> n \<le> 90) \<or> (192 \<le> n \<and> n \<le> 222 \<and> n \<noteq> 215)
         then char_of (n + 32) else c)"

definition lower :: "string \<Rightarrow> string" where
  "lower s = map lower_char s"

text \<open>\<open>s.startswith(p)\<close> and the substring test \<open>sub in s\<close> of Python.\<close>

fun startswith :: "string \<Rightarrow> string \<Rightarrow> bool" where
  "startswith s [] = True"
| "startswith [] (p # ps) = False"
| "startswith (c # cs) (p # ps) = (c = p \<and> startswith cs ps)"

fun str_in :: "string \<Rightarrow> string \<Rightarrow> bool" where
  "str_in sub [] = (sub = [])"
| "str_in sub (c # cs) = (startswith (c # cs) sub \<or> str_in sub cs)"

text \<open>\<open>any(sub in relation for sub in subs)\<close>.\<close>

definition any_in :: "string list \<Rightarrow> string \<Rightarrow> bool" where
  "any_in subs relation = list_ex (\<lambda>sub. str_in sub relation) subs"

section \<open>Relation Classifier\<close>

text \<open>
  The keyword lists of \<open>standardize_relation\<close>, as the source writes them. The fourth
  entry of the exclusion list is the source's raw string \<open>no\b.*?\bhistory\<close>, sixteen
  literal characters to the substring test; the sixth and seventh entries start with a
  capital letter.
\<close>

definition children_keywords :: "string list" where
  "children_keywords = [''daughter'', ''son'', ''children'']"

definition sibling_keywords :: "string list" where
  "sibling_keywords = [''brother'', ''sister'', ''sibling'']"

definition parent_keywords :: "string list" where
  "parent_keywords = [''father'', ''mother'', ''parent'']"

definition excluded_keywords :: "string list" where
  "excluded_keywords =
     [''non contributory'', ''nc'', ''noncontributory'',
      ''no'' @ [CHR 0x5C] @ ''b.*?'' @ [CHR 0x5C] @ ''bhistory'',
      ''not'', ''Unknown'', ''Unremarkable'']"

text \<open>
  \<open>standardize_relation\<close>: the category name, or \<open>None\<close> for Python's \<open>None\<close>.
\<close>

definition standardize_relation :: "string \<Rightarrow> string option" where
  "standardize_relation relation0 =
     (let relation = lower relation0
      in if any_in children_keywords relation then Some ''Children''
         else if any_in sibling_keywords relation then Some ''Sibling''
         else if any_in parent_keywords relation then Some ''Parent''
         else if any_in excluded_keywords relation then None
         else Some ''Other relatives'')"

section \<open>Decoded payloads\<close>

text \<open>
  The values \<open>ast.literal_eval\<close> can return. Dictionary keys and set elements are
  hashable, so they have a type of their own; a float or complex number carries its
  text, which the program never reads. A dictionary is the list of its items, one per
  key.
\<close>

datatype pykey =
    KNone
  | KBool bool
  | KInt int
  | KFloat string
  | KStr string
  | KBytes "nat list"
  | KTuple "pykey list"

datatype pyval =
    PyNone
  | PyEllipsis
  | PyBool bool
  | PyInt int
  | PyFloat string
  | PyComplex string
  | PyStr string
  | PyBytes "nat list"
  | PyList "pyval list"
  | PyTuple "pyval list"
  | PySet "pykey list"
  | PyDict "(pykey \<times> pyval) list"

datatype pyerror =
    SyntaxError | ValueError | TypeError | KeyError | AttributeError
  | RecursionError | MemoryError | ReError

fun of_key :: "pykey \<Rightarrow> pyval" where
  "of_key KNone = PyNone"
| "of_key (KBool b) = PyBool b"
| "of_key (KInt i) = PyInt i"
| "of_key (KFloat t) = PyFloat t"
| "of_key (KStr s) = PyStr s"
| "of_key (KBytes bs) = PyBytes bs"
| "of_key (KTuple ks) = PyTuple (map of_key ks)"

text \<open>\<open>for entry in family_list\<close>: the elements iteration yields, or TypeError.\<close>

fun py_iter :: "pyval \<Rightarrow> pyerror + pyval list" where
  "py_iter (PyList xs) = Inr xs"
| "py_iter (PyTuple xs) = Inr xs"
| "py_iter (PySet ks) = Inr (map of_key ks)"
| "py_iter (PyDict kvs) = Inr (map (of_key \<circ> fst) kvs)"
| "py_iter (PyStr s) = Inr (map (\<lambda>c. PyStr [c]) s)"
| "py_iter (PyBytes bs) = Inr (map (\<lambda>b. PyInt (int b)) bs)"
| "py_iter v = Inl TypeError"

text \<open>\<open>entry[key]\<close> with a string key.\<close>

fun py_getitem :: "pyval \<Rightarrow> string \<Rightarrow> pyerror + pyval" where
  "py_getitem (PyDict kvs) key =
     (case map_of kvs (KStr key) of None \<Rightarrow> Inl KeyError | Some v \<Rightarrow> Inr v)"
| "py_getitem v key = Inl TypeError"

text \<open>\<open>entry.get(key, default)\<close>.\<close>

fun py_get :: "pyval \<Rightarrow> string \<Rightarrow> pyval \<Rightarrow> pyerror + pyval" where
  "py_get (PyDict kvs) key dflt =
     (case map_of kvs (KStr key) of None \<Rightarrow> Inr dflt | Some v \<Rightarrow> Inr v)"
| "py_get v key dflt = Inl AttributeError"

text \<open>
  \<open>standardize_relation\<close> called on whatever value the entry holds: only a string has
  both \<open>.lower()\<close> and a substring test against string keywords.
\<close>

fun standardize_relation_val :: "pyval \<Rightarrow> pyerror + string option" where
  "standardize_relation_val (PyStr s) = Inr (standardize_relation s)"
| "standardize_relation_val (PyBytes bs) = Inl TypeError"
| "standardize_relation_val v = Inl AttributeError"

section \<open>Selectable relations\<close>

text \<open>
  \<open>all_relations.update(standardize_relation(entry.get("relation", "")) for entry in
  family_list if standardize_relation(entry.get("relation", "")) is not None)\<close>: the set
  takes the categories one by one, so what was added before an exception stays.
\<close>

fun update_relations :: "string set \<Rightarrow> pyval list \<Rightarrow> string set" where
  "update_relations acc [] = acc"
| "update_relations acc (entry # rest) =
     (case py_get entry ''relation'' (PyStr []) of
        Inl e \<Rightarrow> acc
      | Inr rel \<Rightarrow>
          (case standardize_relation_val rel of
             Inl e \<Rightarrow> acc
           | Inr None \<Rightarrow> update_relations acc rest
           | Inr (Some cat) \<Rightarrow> update_relations (insert cat acc) rest))"

text \<open>
  The loop over the aggregated family-history column; \<open>literal_eval\<close> is
  \<open>ast.literal_eval\<close> of the standard library, a parameter here.
\<close>

definition all_relations_step ::
  "(string \<Rightarrow> pyerror + pyval) \<Rightarrow> string set \<Rightarrow> string \<Rightarrow> string set" where
  "all_relations_step literal_eval acc family_hist =
     (case literal_eval family_hist of
        Inl e \<Rightarrow> acc
      | Inr v \<Rightarrow> (case py_iter v of Inl e \<Rightarrow> acc | Inr family_list \<Rightarrow> update_relations acc family_list))"

definition all_relations :: "(string \<Rightarrow> pyerror + pyval) \<Rightarrow> string list \<Rightarrow> string set" where
  "all_relations literal_eval family_hists = foldl (all_relations_step literal_eval) {} family_hists"

section \<open>History Parser\<close>

text \<open>\<open>x in selected_relations\<close> for a classifier result.\<close>

definition in_selected :: "string option \<Rightarrow> string list \<Rightarrow> bool" where
  "in_selected cat selected_relations =
     (case cat of None \<Rightarrow> False | Some c \<Rightarrow> c \<in> set selected_relations)"

text \<open>
  The list comprehension of \<open>filter_family_history\<close>: for each entry the test
  \<open>standardize_relation(entry["relation"]) in selected_relations\<close>, then
  \<open>entry["condition"]\<close> when it holds; the first exception ends it.
\<close>

fun filter_entries :: "string list \<Rightarrow> pyval list \<Rightarrow> pyerror + pyval list" where
  "filter_entries selected_relations [] = Inr []"
| "filter_entries selected_relations (entry # rest) =
     (case py_getitem entry ''relation'' of
        Inl e \<Rightarrow> Inl e
      | Inr rel \<Rightarrow>
          (case standardize_relation_val rel of
             Inl e \<Rightarrow> Inl e
           | Inr cat \<Rightarrow>
               if in_selected cat selected_relations
               then (case py_getitem entry ''condition'' of
                       Inl e \<Rightarrow> Inl e
                     | Inr c \<Rightarrow>
                         (case filter_entries selected_relations rest of
                            Inl e \<Rightarrow> Inl e
                          | Inr cs \<Rightarrow> Inr (c # cs)))
               else filter_entries selected_relations rest))"

text \<open>The body of the \<open>try\<close>, from the outcome of the decoding on.\<close>

definition filter_family_history_try ::
  "string list \<Rightarrow> pyerror + pyval \<Rightarrow> pyerror + pyval list" where
  "filter_family_history_try selected_relations decoded =
     (case decoded of
        Inl e \<Rightarrow> Inl e
      | Inr v \<Rightarrow>
          (case py_iter v of
             Inl e \<Rightarrow> Inl e
           | Inr family_list \<Rightarrow> filter_entries selected_relations family_list))"

text \<open>\<open>filter_family_history\<close>: the bare \<open>except\<close> turns every exception into \<open>[]\<close>.\<close>

definition filter_family_history ::
  "(string \<Rightarrow> pyerror + pyval) \<Rightarrow> string list \<Rightarrow> string \<Rightarrow> pyval list" where
  "filter_family_history literal_eval selected_relations history =
     (case filter_family_history_try selected_relations (literal_eval history) of
        Inl e \<Rightarrow> []
      | Inr cs \<Rightarrow> cs)"

text \<open>
  The structure the parser expects of a decoded payload: an ordered sequence (a list or
  a tuple) of objects (dictionaries).
\<close>

fun is_dict :: "pyval \<Rightarrow> bool" where
  "is_dict (PyDict kvs) = True"
| "is_dict v = False"

fun is_entry_sequence :: "pyerror + pyval \<Rightarrow> bool" where
  "is_entry_sequence (Inr (PyList xs)) = list_all is_dict xs"
| "is_entry_sequence (Inr (PyTuple xs)) = list_all is_dict xs"
| "is_entry_sequence d = False"

text \<open>A keyword of the list occurs in the string, as a contiguous run of characters.\<close>

definition contains_keyword :: "string list \<Rightarrow> string \<Rightarrow> bool" where
  "contains_keyword kws s = (\<exists>k \<in> set kws. sublist k s)"

text \<open>
  The classifier as the specification words it: a keyword set matches a relation when
  some keyword occurs in it case aside (both lowercased), and the sets are tried in
  the order Children, Sibling, Parent, Excluded, the first match deciding.
\<close>

definition matches_ignoring_case :: "string list \<Rightarrow> string \<Rightarrow> bool" where
  "matches_ignoring_case kws r = list_ex (\<lambda>k. sublist (lower k) (lower r)) kws"

definition classify_by_priority :: "string \<Rightarrow> string option" where
  "classify_by_priority r =
     (if matches_ignoring_case children_keywords r then Some ''Children''
      else if matches_ignoring_case sibling_keywords r then Some ''Sibling''
      else if matches_ignoring_case parent_keywords r then Some ''Parent''
      else if matches_ignoring_case excluded_keywords r then None
      else Some ''Other relatives'')"

section \<open>Tables\<close>

text \<open>
  A row of the notes table and a row of \<open>patients[['SUBJECT_ID', 'GENDER', 'DOB',
  'DOD_HOSP']]\<close>. A null cell is \<open>None\<close>. The two date columns hold what
  \<open>pd.to_datetime(..., errors='coerce')\<close> makes of them: a timestamp, or
  \<open>None\<close> for NaT (a null or unparseable date).
\<close>

datatype timestamp = Timestamp (year: int) (month: nat) (day: nat)

record note_row =
  SUBJECT_ID :: int
  MAIN_PATHOLOGY :: "string option"
  MEDICAL_PERSONAL_HISTORY :: "string option"
  MEDICAL_FAMILY_HISTORY :: "string option"

record patient_row =
  P_SUBJECT_ID :: int
  P_GENDER :: "string option"
  P_DOB :: "timestamp option"
  P_DOD_HOSP :: "timestamp option"

record joined_row = note_row +
  GENDER :: "string option"
  DOB :: "timestamp option"
  DOD_HOSP :: "timestamp option"

record merged_row = joined_row +
  AGE :: "int option"

section \<open>Linker\<close>

text \<open>
  \<open>structured_notes.merge(patients[...], on='SUBJECT_ID', how='left')\<close>: the notes in
  their order, each with every patient row of the same identifier in the patients'
  order, or once with null demographic columns when there is none. The model is of a
  notes table with at least one row, where \<open>apply\<close> has a row to call the age function
  on.
\<close>

definition matching_patients :: "note_row \<Rightarrow> patient_row list \<Rightarrow> patient_row list" where
  "matching_patients n patients = filter (\<lambda>p. P_SUBJECT_ID p = SUBJECT_ID n) patients"

definition join_row :: "note_row \<Rightarrow> patient_row option \<Rightarrow> joined_row" where
  "join_row n po =
     (case po of
        None \<Rightarrow> note_row.extend n (joined_row.fields None None None)
      | Some p \<Rightarrow> note_row.extend n (joined_row.fields (P_GENDER p) (P_DOB p) (P_DOD_HOSP p)))"

definition merge_note :: "patient_row list \<Rightarrow> note_row \<Rightarrow> joined_row list" where
  "merge_note patients n =
     (case matching_patients n patients of
        [] \<Rightarrow> [join_row n None]
      | p # ps \<Rightarrow> map (\<lambda>q. join_row n (Some q)) (p # ps))"

definition merge_left :: "note_row list \<Rightarrow> patient_row list \<Rightarrow> joined_row list" where
  "merge_left notes patients = concat (map (merge_note patients) notes)"

text \<open>
  The row function of the \<open>AGE\<close> column: \<open>(row['DOD_HOSP'].year - row['DOB'].year) if
  pd.notnull(row['DOD_HOSP']) else None\<close>. With a death date and a NaT birth date the
  difference is NaN, a null as well.
\<close>

definition age_of :: "joined_row \<Rightarrow> int option" where
  "age_of row =
     (case DOD_HOSP row of
        None \<Rightarrow> None
      | Some dod \<Rightarrow> (case DOB row of None \<Rightarrow> None | Some dob \<Rightarrow> Some (year dod - year dob)))"

definition with_age :: "joined_row \<Rightarrow> merged_row" where
  "with_age row = joined_row.extend row (merged_row.fields (age_of row))"

text \<open>
  \<open>(merged_df['AGE'] >= 0) & (merged_df['AGE'] <= 100)\<close>: both comparisons are false on
  a null.
\<close>

definition plausible :: "merged_row \<Rightarrow> bool" where
  "plausible r = (case AGE r of None \<Rightarrow> False | Some a \<Rightarrow> 0 \<le> a \<and> a \<le> 100)"

text \<open>\<open>drop_duplicates(subset=['SUBJECT_ID'])\<close>, which keeps the first row of each identifier.\<close>

fun drop_duplicates_from :: "int list \<Rightarrow> merged_row list \<Rightarrow> merged_row list" where
  "drop_duplicates_from seen [] = []"
| "drop_duplicates_from seen (r # rs) =
     (if SUBJECT_ID r \<in> set seen then drop_duplicates_from seen rs
      else r # drop_duplicates_from (SUBJECT_ID r # seen) rs)"

definition drop_duplicates :: "merged_row list \<Rightarrow> merged_row list" where
  "drop_duplicates rows = drop_duplicates_from [] rows"

definition age_filtered :: "note_row list \<Rightarrow> patient_row list \<Rightarrow> merged_row list" where
  "age_filtered notes patients = filter plausible (map with_age (merge_left notes patients))"

definition merged_df :: "note_row list \<Rightarrow> patient_row list \<Rightarrow> merged_row list" where
  "merged_df notes patients = drop_duplicates (age_filtered notes patients)"

text \<open>The rows of a table with a given patient identifier, in the table's order.\<close>

definition rows_of :: "int \<Rightarrow> merged_row list \<Rightarrow> merged_row list" where
  "rows_of s rows = filter (\<lambda>r. SUBJECT_ID r = s) rows"

section \<open>Filter Engine\<close>

text \<open>
  \<open>Series.str.contains(search_word, case=False, na=False)\<close> has \<open>regex=True\<close> by default:
  the query is compiled with \<open>re.compile(search_word, re.IGNORECASE)\<close> and a cell matches
  when \<open>search\<close> finds the pattern anywhere in it. The model covers the patterns made of
  ordinary characters, the dot and parentheses: a group changes nothing to whether the
  pattern is found, an unbalanced parenthesis is \<open>re.error\<close>. A pattern with any other
  special character is outside the model.
\<close>

datatype atom = Lit char | AnyChar

datatype compiled = Pattern "atom list" | BadPattern | Unsupported

definition special_chars :: "char list" where
  "special_chars = ''.^$*+?{}[]|()'' @ [CHR 0x5C]"

definition unsupported_chars :: "char list" where
  "unsupported_chars = ''^$*+?{}[]|'' @ [CHR 0x5C]"

fun re_parse :: "nat \<Rightarrow> string \<Rightarrow> atom list option" where
  "re_parse depth [] = (if depth = 0 then Some [] else None)"
| "re_parse depth (c # cs) =
     (if c = CHR ''('' then re_parse (Suc depth) cs
      else if c = CHR '')'' then (case depth of 0 \<Rightarrow> None | Suc d \<Rightarrow> re_parse d cs)
      else map_option ((#) (if c = CHR ''.'' then AnyChar else Lit c)) (re_parse depth cs))"

definition re_compile :: "string \<Rightarrow> compiled" where
  "re_compile pat =
     (if list_ex (\<lambda>c. c \<in> set unsupported_chars) pat then Unsupported
      else case re_parse 0 pat of None \<Rightarrow> BadPattern | Some atoms \<Rightarrow> Pattern atoms)"

text \<open>
  Under \<open>re.IGNORECASE\<close> a literal matches the characters with the same lower case; the
  dot matches every character but the newline.
\<close>

fun atom_matches :: "atom \<Rightarrow> char \<Rightarrow> bool" where
  "atom_matches (Lit c) d = (lower_char c = lower_char d)"
| "atom_matches AnyChar d = (d \<noteq> CHR 0x0A)"

fun match_here :: "atom list \<Rightarrow> string \<Rightarrow> bool" where
  "match_here [] s = True"
| "match_here (a # as) [] = False"
| "match_here (a # as) (c # cs) = (atom_matches a c \<and> match_here as cs)"

fun re_search :: "atom list \<Rightarrow> string \<Rightarrow> bool" where
  "re_search atoms [] = match_here atoms []"
| "re_search atoms (c # cs) = (match_here atoms (c # cs) \<or> re_search atoms cs)"

definition str_contains :: "atom list \<Rightarrow> string option \<Rightarrow> bool" where
  "str_contains atoms cell = (case cell of None \<Rightarrow> False | Some s \<Rightarrow> re_search atoms s)"

datatype 'a outcome = Returns 'a | Raises pyerror | NotModelled

text \<open>
  The dtype of the \<open>MAIN_PATHOLOGY\<close> column. It is fixed when the notes table is
  loaded, and the join and the row filters keep it: \<open>object\<close> when the table has no
  row or some cell holds a string, \<open>float64\<close> when every cell of the column is null.
  Only an \<open>object\<close> column has the \<open>.str\<close> accessor; on a \<open>float64\<close> column it raises
  AttributeError.
\<close>

datatype dtype = ObjectDtype | Float64Dtype

definition pathology_dtype :: "note_row list \<Rightarrow> dtype" where
  "pathology_dtype notes =
     (if notes = [] \<or> list_ex (\<lambda>n. MAIN_PATHOLOGY n \<noteq> None) notes
      then ObjectDtype else Float64Dtype)"

text \<open>
  \<open>filtered_df = merged_df[merged_df["MAIN_PATHOLOGY"].str.contains(search_word,
  case=False, na=False)] if search_word else merged_df.copy()\<close>, for a merged table
  whose \<open>MAIN_PATHOLOGY\<close> column has the given dtype. The accessor is evaluated before
  the pattern is compiled.
\<close>

definition filtered_df :: "dtype \<Rightarrow> merged_row list \<Rightarrow> string \<Rightarrow> merged_row list outcome" where
  "filtered_df dt merged search_word =
     (if search_word \<noteq> []
      then (case dt of
              Float64Dtype \<Rightarrow> Raises AttributeError
            | ObjectDtype \<Rightarrow>
                (case re_compile search_word of
                   Pattern atoms \<Rightarrow>
                     Returns (filter (\<lambda>r. str_contains atoms (MAIN_PATHOLOGY r)) merged)
                 | BadPattern \<Rightarrow> Raises ReError
                 | Unsupported \<Rightarrow> NotModelled))
      else Returns merged)"

text \<open>
  What the claim about the Filter Engine asks of a cell: the pathology, if any, contains
  the query as a literal substring, case aside.
\<close>

definition contains_literally :: "string \<Rightarrow> string option \<Rightarrow> bool" where
  "contains_literally q cell =
     (case cell of None \<Rightarrow> False | Some s \<Rightarrow> sublist (lower q) (lower s))"

section \<open>Aggregator\<close>

text \<open>
  \<open>filtered_df.groupby(['SUBJECT_ID', 'MAIN_PATHOLOGY', 'GENDER', 'AGE'],
  as_index=False).agg({...})\<close>. \<open>groupby\<close> has \<open>dropna=True\<close> and \<open>sort=True\<close> by
  default: a row with a null in a key column belongs to no group, and the groups come
  in the order of their keys. Each text column of a group is
  \<open>', '.join(x.dropna().astype(str))\<close>.
\<close>

record aggregated_row =
  A_SUBJECT_ID :: int
  A_MAIN_PATHOLOGY :: string
  A_GENDER :: string
  A_AGE :: int
  A_MEDICAL_PERSONAL_HISTORY :: string
  A_MEDICAL_FAMILY_HISTORY :: string

type_synonym group_key = "int \<times> string \<times> string \<times> int"

definition key_of :: "merged_row \<Rightarrow> group_key option" where
  "key_of r =
     (case MAIN_PATHOLOGY r of
        None \<Rightarrow> None
      | Some p \<Rightarrow>
          (case GENDER r of
             None \<Rightarrow> None
           | Some g \<Rightarrow> (case AGE r of None \<Rightarrow> None | Some a \<Rightarrow> Some (SUBJECT_ID r, p, g, a))))"

fun dropna :: "'a option list \<Rightarrow> 'a list" where
  "dropna [] = []"
| "dropna (None # xs) = dropna xs"
| "dropna (Some x # xs) = x # dropna xs"

fun join :: "string \<Rightarrow> string list \<Rightarrow> string" where
  "join sep [] = []"
| "join sep [x] = x"
| "join sep (x # y # ys) = x @ sep @ join sep (y # ys)"

definition group_keys :: "merged_row list \<Rightarrow> group_key list" where
  "group_keys filtered = sort (remdups (dropna (map key_of filtered)))"

definition aggregate_group :: "merged_row list \<Rightarrow> group_key \<Rightarrow> aggregated_row" where
  "aggregate_group filtered k =
     (let x = filter (\<lambda>r. key_of r = Some k) filtered
      in \<lparr>A_SUBJECT_ID = fst k,
          A_MAIN_PATHOLOGY = fst (snd k),
          A_GENDER = fst (snd (snd k)),
          A_AGE = snd (snd (snd k)),
          A_MEDICAL_PERSONAL_HISTORY = join '', '' (dropna (map MEDICAL_PERSONAL_HISTORY x)),
          A_MEDICAL_FAMILY_HISTORY = join '', '' (dropna (map MEDICAL_FAMILY_HISTORY x))\<rparr>)"

definition aggregated_df :: "merged_row list \<Rightarrow> aggregated_row list" where
  "aggregated_df filtered = map (aggregate_group filtered) (group_keys filtered)"

text \<open>The aggregated rows of a patient identifier, and the key of an aggregated row.\<close>

definition aggregated_of :: "int \<Rightarrow> aggregated_row list \<Rightarrow> aggregated_row list" where
  "aggregated_of s rows = filter (\<lambda>a. A_SUBJECT_ID a = s) rows"

definition aggregated_key :: "aggregated_row \<Rightarrow> group_key" where
  "aggregated_key a = (A_SUBJECT_ID a, A_MAIN_PATHOLOGY a, A_GENDER a, A_AGE a)"

section \<open>A scenario\<close>

text \<open>
  Two patients and four notes: patient 1 was born in 1950 and died in hospital in 2000,
  patient 2 has no death date, and identifier 3 is in no patient row.
\<close>

definition scenario_patients :: "patient_row list" where
  "scenario_patients =
     [\<lparr>P_SUBJECT_ID = 1, P_GENDER = Some ''M'',
       P_DOB = Some (Timestamp 1950 1 1), P_DOD_HOSP = Some (Timestamp 2000 1 1)\<rparr>,
      \<lparr>P_SUBJECT_ID = 2, P_GENDER = Some ''F'',
       P_DOB = Some (Timestamp 1960 1 1), P_DOD_HOSP = None\<rparr>,
      \<lparr>P_SUBJECT_ID = 4, P_GENDER = Some ''F'',
       P_DOB = Some (Timestamp 1800 1 1), P_DOD_HOSP = Some (Timestamp 2000 1 1)\<rparr>]"

definition note_flu :: note_row where
  "note_flu = \<lparr>SUBJECT_ID = 1, MAIN_PATHOLOGY = Some ''Flu'',
     MEDICAL_PERSONAL_HISTORY = Some ''history1'', MEDICAL_FAMILY_HISTORY = None\<rparr>"

definition note_second :: note_row where
  "note_second = \<lparr>SUBJECT_ID = 1, MAIN_PATHOLOGY = Some ''Asthma'',
     MEDICAL_PERSONAL_HISTORY = Some ''history2'', MEDICAL_FAMILY_HISTORY = None\<rparr>"

definition note_no_death :: note_row where
  "note_no_death = \<lparr>SUBJECT_ID = 2, MAIN_PATHOLOGY = Some ''Flu'',
     MEDICAL_PERSONAL_HISTORY = None, MEDICAL_FAMILY_HISTORY = None\<rparr>"

definition note_no_patient :: note_row where
  "note_no_patient = \<lparr>SUBJECT_ID = 3, MAIN_PATHOLOGY = Some ''Flu'',
     MEDICAL_PERSONAL_HISTORY = None, MEDICAL_FAMILY_HISTORY = None\<rparr>"

definition note_too_old :: note_row where
  "note_too_old = \<lparr>SUBJECT_ID = 4, MAIN_PATHOLOGY = Some ''Flu'',
     MEDICAL_PERSONAL_HISTORY = None, MEDICAL_FAMILY_HISTORY = None\<rparr>"

definition scenario_notes :: "note_row list" where
  "scenario_notes = [note_flu, note_second, note_no_death, note_no_patient, note_too_old]"

definition merged_flu :: merged_row where
  "merged_flu = \<lparr>SUBJECT_ID = 1, MAIN_PATHOLOGY = Some ''Flu'',
     MEDICAL_PERSONAL_HISTORY = Some ''history1'', MEDICAL_FAMILY_HISTORY = None,
     GENDER = Some ''M'', DOB = Some (Timestamp 1950 1 1),
     DOD_HOSP = Some (Timestamp 2000 1 1), AGE = Some 50\<rparr>"

definition merged_too_old :: merged_row where
  "merged_too_old = \<lparr>SUBJECT_ID = 4, MAIN_PATHOLOGY = Some ''Flu'',
     MEDICAL_PERSONAL_HISTORY = None, MEDICAL_FAMILY_HISTORY = None,
     GENDER = Some ''F'', DOB = Some (Timestamp 1800 1 1),
     DOD_HOSP = Some (Timestamp 2000 1 1), AGE = Some 200\<rparr>"

text \<open>
  A note of patient 1 without a pathology label and its merged record, and a merged
  record whose pathology label has parentheses.
\<close>

definition note_unlabelled :: note_row where
  "note_unlabelled = \<lparr>SUBJECT_ID = 1, MAIN_PATHOLOGY = None,
     MEDICAL_PERSONAL_HISTORY = Some ''history1'', MEDICAL_FAMILY_HISTORY = None\<rparr>"

definition merged_unlabelled :: merged_row where
  "merged_unlabelled = \<lparr>SUBJECT_ID = 1, MAIN_PATHOLOGY = None,
     MEDICAL_PERSONAL_HISTORY = Some ''history1'', MEDICAL_FAMILY_HISTORY = None,
     GENDER = Some ''M'', DOB = Some (Timestamp 1950 1 1),
     DOD_HOSP = Some (Timestamp 2000 1 1), AGE = Some 50\<rparr>"

definition merged_sepsis :: merged_row where
  "merged_sepsis = \<lparr>SUBJECT_ID = 1, MAIN_PATHOLOGY = Some ''Sepsis (severe)'',
     MEDICAL_PERSONAL_HISTORY = Some ''history1'', MEDICAL_FAMILY_HISTORY = None,
     GENDER = Some ''M'', DOB = Some (Timestamp 1950 1 1),
     DOD_HOSP = Some (Timestamp 2000 1 1), AGE = Some 50\<rparr>"

section \<open>Substring test\<close>

lemma startswith_prefix: "startswith s p = prefix p s"
  by (induction s p rule: startswith.induct) auto

lemma str_in_sublist: "str_in sub s = sublist sub s"
proof (induction s)
  case Nil
  then show ?case by auto
next
  case (Cons c cs)
  then show ?case by (simp add: startswith_prefix sublist_Cons_right)
qed

lemma any_in_iff: "any_in subs s = contains_keyword subs s"
  by (simp add: any_in_def contains_keyword_def list_ex_iff str_in_sublist)

section \<open>Relation Classifier: priority order\<close>

lemma contains_keyword_code: "contains_keyword kws s = list_ex (\<lambda>k. sublist k s) kws"
  by (simp add: contains_keyword_def list_ex_iff)

lemma standardize_relation_chain:
  "standardize_relation r =
     (if contains_keyword children_keywords (lower r) then Some ''Children''
      else if contains_keyword sibling_keywords (lower r) then Some ''Sibling''
      else if contains_keyword parent_keywords (lower r) then Some ''Parent''
      else if contains_keyword excluded_keywords (lower r) then None
      else Some ''Other relatives'')"
  by (simp add: standardize_relation_def Let_def any_in_iff)

text \<open>No lowercased string holds a capital U, so no keyword with one occurs in it.\<close>

lemma lower_char_not_U: "lower_char c \<noteq> CHR ''U''"
proof
  assume a: "lower_char c = CHR ''U''"
  show False
  proof (cases "(65 \<le> (of_char c :: nat) \<and> (of_char c :: nat) \<le> 90)
      \<or> (192 \<le> (of_char c :: nat) \<and> (of_char c :: nat) \<le> 222 \<and> (of_char c :: nat) \<noteq> 215)")
    case True
    then have "lower_char c = char_of ((of_char c :: nat) + 32)"
      unfolding lower_char_def Let_def by (rule if_P)
    with a have "char_of ((of_char c :: nat) + 32) = CHR ''U''"
      by simp
    then have "(of_char (char_of ((of_char c :: nat) + 32) :: char) :: nat) = of_char (CHR ''U'')"
      by simp
    then have m: "((of_char c :: nat) + 32) mod 256 = 85"
      by simp
    from True have "(of_char c :: nat) + 32 < 256"
      by arith
    with m have "(of_char c :: nat) + 32 = 85"
      by simp
    with True show False
      by arith
  next
    case False
    then have "lower_char c = c"
      unfolding lower_char_def Let_def by (rule if_not_P)
    with a have "c = CHR ''U''"
      by simp
    then have "(of_char c :: nat) = 85"
      by simp
    with False show False
      by simp
  qed
qed

lemma no_capital_U_in_lower: "CHR ''U'' \<notin> set (lower r)"
proof
  assume "CHR ''U'' \<in> set (lower r)"
  then obtain c where "lower_char c = CHR ''U''"
    by (auto simp: lower_def)
  with lower_char_not_U show False
    by blast
qed

lemma capital_keyword_absent:
  assumes "CHR ''U'' \<in> set k"
  shows "\<not> sublist k (lower r)"
proof
  assume "sublist k (lower r)"
  then have "set k \<subseteq> set (lower r)"
    by (rule set_mono_sublist)
  with assms have "CHR ''U'' \<in> set (lower r)"
    by blast
  with no_capital_U_in_lower show False
    by blast
qed

lemma Unknown_absent: "\<not> sublist ''Unknown'' (lower r)"
  by (rule capital_keyword_absent) simp

lemma Unremarkable_absent: "\<not> sublist ''Unremarkable'' (lower r)"
  by (rule capital_keyword_absent) simp

lemma matches_ignoring_case_map:
  "matches_ignoring_case kws r = contains_keyword (map lower kws) (lower r)"
  by (auto simp: matches_ignoring_case_def contains_keyword_def list_ex_iff)

lemma lower_children_keywords: "map lower children_keywords = children_keywords"
  by code_simp

lemma lower_sibling_keywords: "map lower sibling_keywords = sibling_keywords"
  by code_simp

lemma lower_parent_keywords: "map lower parent_keywords = parent_keywords"
  by code_simp

lemma lower_excluded_keywords:
  "map lower excluded_keywords =
     [''non contributory'', ''nc'', ''noncontributory'',
      ''no'' @ [CHR 0x5C] @ ''b.*?'' @ [CHR 0x5C] @ ''bhistory'',
      ''not'', ''unknown'', ''unremarkable'']"
  by code_simp

lemma matches_ignoring_case_children:
  "matches_ignoring_case children_keywords r = contains_keyword children_keywords (lower r)"
  by (simp only: matches_ignoring_case_map lower_children_keywords)

lemma matches_ignoring_case_sibling:
  "matches_ignoring_case sibling_keywords r = contains_keyword sibling_keywords (lower r)"
  by (simp only: matches_ignoring_case_map lower_sibling_keywords)

lemma matches_ignoring_case_parent:
  "matches_ignoring_case parent_keywords r = contains_keyword parent_keywords (lower r)"
  by (simp only: matches_ignoring_case_map lower_parent_keywords)

lemma contains_keyword_Cons:
  "contains_keyword (k # kws) s \<longleftrightarrow> sublist k s \<or> contains_keyword kws s"
  "contains_keyword [] s \<longleftrightarrow> False"
  by (simp_all add: contains_keyword_def)

lemma matches_ignoring_case_excluded:
  "matches_ignoring_case excluded_keywords r \<longleftrightarrow>
     contains_keyword excluded_keywords (lower r)
     \<or> sublist ''unknown'' (lower r) \<or> sublist ''unremarkable'' (lower r)"
proof -
  have l: "matches_ignoring_case excluded_keywords r \<longleftrightarrow>
      contains_keyword
        [''non contributory'', ''nc'', ''noncontributory'',
         ''no'' @ [CHR 0x5C] @ ''b.*?'' @ [CHR 0x5C] @ ''bhistory'',
         ''not'', ''unknown'', ''unremarkable''] (lower r)"
    by (simp only: matches_ignoring_case_map lower_excluded_keywords)
  have c: "contains_keyword excluded_keywords (lower r) \<longleftrightarrow>
      contains_keyword
        [''non contributory'', ''nc'', ''noncontributory'',
         ''no'' @ [CHR 0x5C] @ ''b.*?'' @ [CHR 0x5C] @ ''bhistory'',
         ''not''] (lower r)"
    unfolding excluded_keywords_def contains_keyword_Cons
    using Unknown_absent [of r] Unremarkable_absent [of r]
    by simp
  show ?thesis
    unfolding l c contains_keyword_Cons
    by simp
qed

text \<open>
  The code follows the priority order of the specification on every relation string,
  except that a string matching only the keywords "Unknown" or "Unremarkable" is not
  excluded.
\<close>

lemma standardize_relation_agrees:
  "standardize_relation r = classify_by_priority r
   \<or> (standardize_relation r = Some ''Other relatives'' \<and> classify_by_priority r = None
      \<and> (sublist ''unknown'' (lower r) \<or> sublist ''unremarkable'' (lower r)))"
  unfolding standardize_relation_chain classify_by_priority_def
    matches_ignoring_case_children matches_ignoring_case_sibling
    matches_ignoring_case_parent matches_ignoring_case_excluded
  by simp

text \<open>
  C5. The claim: the keyword sets are matched case aside, in the order Children,
  Sibling, Parent, Excluded, else "Other relatives", the first match deciding, and
  "sister's father" is a Sibling. The order and the example hold. But the code
  compares the lowercased relation with the keywords as written, and "Unknown" and
  "Unremarkable" are written with a capital: "Unremarkable" and "UNKNOWN" match the
  Excluded set case aside and no earlier set, so the priority order gives the excluded
  sentinel, and the code returns "Other relatives".
\<close>

theorem capitalised_keywords_never_match:
  "classify_by_priority ''Unremarkable'' = None
   \<and> standardize_relation ''Unremarkable'' = Some ''Other relatives''
   \<and> classify_by_priority ''UNKNOWN'' = None
   \<and> standardize_relation ''UNKNOWN'' = Some ''Other relatives''
   \<and> classify_by_priority ''sister's father'' = Some ''Sibling''
   \<and> standardize_relation ''sister's father'' = Some ''Sibling''"
proof -
  have 1: "classify_by_priority ''Unremarkable'' = None"
    by code_simp
  have 2: "standardize_relation ''Unremarkable'' = Some ''Other relatives''"
    by code_simp
  have 3: "classify_by_priority ''UNKNOWN'' = None"
    by code_simp
  have 4: "standardize_relation ''UNKNOWN'' = Some ''Other relatives''"
    by code_simp
  have 5: "classify_by_priority ''sister's father'' = Some ''Sibling''"
    by code_simp
  have 6: "standardize_relation ''sister's father'' = Some ''Sibling''"
    by code_simp
  from 1 2 3 4 5 6 show ?thesis
    by (intro conjI)
qed

section \<open>Relation Classifier: exclusion\<close>

lemma standardize_relation_excluded:
  "\<not> contains_keyword children_keywords (lower r) \<Longrightarrow>
   \<not> contains_keyword sibling_keywords (lower r) \<Longrightarrow>
   \<not> contains_keyword parent_keywords (lower r) \<Longrightarrow>
   contains_keyword excluded_keywords (lower r) \<Longrightarrow>
   standardize_relation r = None"
  by (simp add: standardize_relation_def Let_def any_in_iff)

lemma nc_is_excluded_keyword: "sublist ''nc'' s \<Longrightarrow> contains_keyword excluded_keywords s"
  by (auto simp: contains_keyword_def excluded_keywords_def)

lemma update_relations_skips:
  "map_of kvs (KStr ''relation'') = Some (PyStr r) \<Longrightarrow> standardize_relation r = None \<Longrightarrow>
   update_relations acc (PyDict kvs # rest) = update_relations acc rest"
  by simp

lemma update_relations_adds:
  "map_of kvs (KStr ''relation'') = Some (PyStr r) \<Longrightarrow> standardize_relation r = Some cat \<Longrightarrow>
   update_relations acc (PyDict kvs # rest) = update_relations (insert cat acc) rest"
  by simp

lemma update_relations_default:
  "map_of kvs (KStr ''relation'') = None \<Longrightarrow> standardize_relation [] = Some cat \<Longrightarrow>
   update_relations acc (PyDict kvs # rest) = update_relations (insert cat acc) rest"
  by simp

text \<open>
  C10. Every relation string whose lower case contains the two letters "nc" and no
  Children, Sibling or Parent keyword is classified as excluded (\<open>None\<close>), so an entry
  with such a relation adds nothing to the set of selectable relations; "uncle" and
  "fiance" are such strings.
\<close>

theorem nc_substring_excluded:
  "(sublist ''nc'' (lower r)
      \<and> \<not> contains_keyword children_keywords (lower r)
      \<and> \<not> contains_keyword sibling_keywords (lower r)
      \<and> \<not> contains_keyword parent_keywords (lower r)
    \<longrightarrow> standardize_relation r = None
        \<and> (\<forall>kvs acc rest. map_of kvs (KStr ''relation'') = Some (PyStr r) \<longrightarrow>
              update_relations acc (PyDict kvs # rest) = update_relations acc rest)
        \<and> (\<forall>literal_eval h kvs acc rest.
              literal_eval h = Inr (PyList (PyDict kvs # rest))
              \<and> map_of kvs (KStr ''relation'') = Some (PyStr r) \<longrightarrow>
              all_relations_step literal_eval acc h = update_relations acc rest))
   \<and> standardize_relation ''uncle'' = None
   \<and> standardize_relation ''fiance'' = None"
proof (intro conjI impI)
  assume h: "sublist ''nc'' (lower r)
      \<and> \<not> contains_keyword children_keywords (lower r)
      \<and> \<not> contains_keyword sibling_keywords (lower r)
      \<and> \<not> contains_keyword parent_keywords (lower r)"
  then have "contains_keyword excluded_keywords (lower r)"
    by (simp add: nc_is_excluded_keyword)
  with h show n: "standardize_relation r = None"
    by (simp add: standardize_relation_excluded)
  show "\<forall>kvs acc rest. map_of kvs (KStr ''relation'') = Some (PyStr r) \<longrightarrow>
          update_relations acc (PyDict kvs # rest) = update_relations acc rest"
    using n by (simp add: update_relations_skips)
  show "\<forall>literal_eval h kvs acc rest.
          literal_eval h = Inr (PyList (PyDict kvs # rest))
          \<and> map_of kvs (KStr ''relation'') = Some (PyStr r) \<longrightarrow>
          all_relations_step literal_eval acc h = update_relations acc rest"
    using n by (simp add: all_relations_step_def update_relations_skips)
next
  show "standardize_relation ''uncle'' = None"
    by code_simp
next
  show "standardize_relation ''fiance'' = None"
    by code_simp
qed

theorem nc_substring_excluded_witness:
  "sublist ''nc'' (lower ''Uncle'')
   \<and> \<not> contains_keyword children_keywords (lower ''Uncle'')
   \<and> \<not> contains_keyword sibling_keywords (lower ''Uncle'')
   \<and> \<not> contains_keyword parent_keywords (lower ''Uncle'')
   \<and> standardize_relation ''Uncle'' = None
   \<and> update_relations {}
        [PyDict [(KStr ''relation'', PyStr ''Uncle''), (KStr ''condition'', PyStr ''stroke'')]]
      = {}
   \<and> all_relations
        (\<lambda>h. Inr (PyList
           [PyDict [(KStr ''relation'', PyStr ''Uncle''), (KStr ''condition'', PyStr ''stroke'')]]))
        [''payload'']
      = {}"
proof -
  have h: "sublist ''nc'' (lower ''Uncle'')
     \<and> \<not> contains_keyword children_keywords (lower ''Uncle'')
     \<and> \<not> contains_keyword sibling_keywords (lower ''Uncle'')
     \<and> \<not> contains_keyword parent_keywords (lower ''Uncle'')"
    unfolding contains_keyword_code by code_simp
  have m: "map_of [(KStr ''relation'', PyStr ''Uncle''), (KStr ''condition'', PyStr ''stroke'')]
             (KStr ''relation'') = Some (PyStr ''Uncle'')"
    by simp
  note c = nc_substring_excluded [of "''Uncle''", THEN conjunct1, THEN mp, OF h]
  note c1 = c [THEN conjunct1]
  note c2 = c [THEN conjunct2, THEN conjunct1, rule_format]
  note c3 = c [THEN conjunct2, THEN conjunct2, rule_format]
  have "update_relations {}
        [PyDict [(KStr ''relation'', PyStr ''Uncle''), (KStr ''condition'', PyStr ''stroke'')]]
      = update_relations {} []"
    by (rule c2 [OF m])
  then have u: "update_relations {}
        [PyDict [(KStr ''relation'', PyStr ''Uncle''), (KStr ''condition'', PyStr ''stroke'')]]
      = {}"
    by simp
  have "all_relations_step
        (\<lambda>h. Inr (PyList
           [PyDict [(KStr ''relation'', PyStr ''Uncle''), (KStr ''condition'', PyStr ''stroke'')]]))
        {} ''payload''
      = update_relations {} []"
    by (rule c3, rule conjI, rule refl, rule m)
  then have a: "all_relations
        (\<lambda>h. Inr (PyList
           [PyDict [(KStr ''relation'', PyStr ''Uncle''), (KStr ''condition'', PyStr ''stroke'')]]))
        [''payload'']
      = {}"
    by (simp add: all_relations_def)
  from h c1 u a show ?thesis
    by (intro conjI) simp_all
qed

text \<open>
  C2. The claim: a relation string that matches "non contributory", "nc" or "unknown"
  without regard to case is excluded. The code lowercases the relation and then looks
  for the keyword "Unknown" as written, with its capital, so "unknown" in any case falls
  through to "Other relatives" and becomes selectable; "nc" and "non contributory" are
  excluded.
\<close>

theorem unknown_not_excluded:
  "standardize_relation ''unknown'' = Some ''Other relatives''
   \<and> standardize_relation ''Unknown'' = Some ''Other relatives''
   \<and> update_relations {}
        [PyDict [(KStr ''relation'', PyStr ''unknown''), (KStr ''condition'', PyStr ''x'')]]
      = {''Other relatives''}
   \<and> filter_entries [''Other relatives'']
        [PyDict [(KStr ''relation'', PyStr ''unknown''), (KStr ''condition'', PyStr ''x'')]]
      = Inr [PyStr ''x'']
   \<and> standardize_relation ''NC'' = None
   \<and> standardize_relation ''Non Contributory'' = None"
proof -
  have u: "standardize_relation ''unknown'' = Some ''Other relatives''"
    by code_simp
  have u': "standardize_relation ''Unknown'' = Some ''Other relatives''"
    by code_simp
  have n: "standardize_relation ''NC'' = None"
    by code_simp
  have n': "standardize_relation ''Non Contributory'' = None"
    by code_simp
  have a: "update_relations {}
        [PyDict [(KStr ''relation'', PyStr ''unknown''), (KStr ''condition'', PyStr ''x'')]]
      = {''Other relatives''}"
    by (simp add: u)
  have f: "filter_entries [''Other relatives'']
        [PyDict [(KStr ''relation'', PyStr ''unknown''), (KStr ''condition'', PyStr ''x'')]]
      = Inr [PyStr ''x'']"
    by (simp add: u in_selected_def)
  from u u' a f n n' show ?thesis
    by (intro conjI)
qed

section \<open>History Parser: fail-soft\<close>

lemma py_getitem_non_dict: "\<not> is_dict v \<Longrightarrow> py_getitem v key = Inl TypeError"
  by (cases v) simp_all

lemma of_key_not_dict: "\<not> is_dict (of_key k)"
  by (cases k) simp_all

lemma filter_entries_non_dict:
  "\<not> list_all is_dict es \<Longrightarrow> \<exists>e. filter_entries sel es = Inl e"
proof (induction es)
  case Nil
  then show ?case by simp
next
  case (Cons x xs)
  show ?case
  proof (cases "is_dict x")
    case False
    then show ?thesis by (simp add: py_getitem_non_dict)
  next
    case True
    with Cons.prems have "\<not> list_all is_dict xs" by simp
    then obtain e where "filter_entries sel xs = Inl e"
      using Cons.IH by blast
    then show ?thesis
      by (simp split: sum.splits)
  qed
qed

lemma filter_entries_no_dict:
  "\<forall>x \<in> set es. \<not> is_dict x \<Longrightarrow>
   (case filter_entries sel es of Inl e \<Rightarrow> [] | Inr cs \<Rightarrow> cs) = []"
proof (cases es)
  case Nil
  then show ?thesis by simp
next
  case (Cons x xs)
  assume "\<forall>x \<in> set es. \<not> is_dict x"
  with Cons have "\<not> list_all is_dict es" by simp
  then obtain e where "filter_entries sel es = Inl e"
    using filter_entries_non_dict by blast
  then show ?thesis by simp
qed

text \<open>
  C6. A payload that does not decode into a sequence of objects, because the decoder
  raises or because the decoded value is not a list or tuple whose elements are all
  dictionaries, gives the empty list; the function has no other outcome than a list, so
  no exception reaches its caller.
\<close>

theorem filter_family_history_fail_soft:
  "\<not> is_entry_sequence (literal_eval history) \<Longrightarrow>
   filter_family_history literal_eval selected_relations history = []"
proof (cases "literal_eval history")
  case (Inl e)
  then show ?thesis
    by (simp add: filter_family_history_def filter_family_history_try_def)
next
  case (Inr v)
  assume n: "\<not> is_entry_sequence (literal_eval history)"
  have "(case (case py_iter v of Inl e \<Rightarrow> Inl e
               | Inr family_list \<Rightarrow> filter_entries selected_relations family_list) of
           Inl e \<Rightarrow> [] | Inr cs \<Rightarrow> cs) = []"
  proof (cases v)
    case (PyList xs)
    with n Inr obtain e where "filter_entries selected_relations xs = Inl e"
      using filter_entries_non_dict by auto
    with PyList show ?thesis by simp
  next
    case (PyTuple xs)
    with n Inr obtain e where "filter_entries selected_relations xs = Inl e"
      using filter_entries_non_dict by auto
    with PyTuple show ?thesis by simp
  next
    case (PySet ks)
    then show ?thesis
      using filter_entries_no_dict [of "map of_key ks" selected_relations]
      by (simp add: of_key_not_dict)
  next
    case (PyDict kvs)
    then show ?thesis
      using filter_entries_no_dict [of "map (of_key \<circ> fst) kvs" selected_relations]
      by (simp add: of_key_not_dict)
  next
    case (PyStr s)
    then show ?thesis
      using filter_entries_no_dict [of "map (\<lambda>c. PyStr [c]) s" selected_relations]
      by simp
  next
    case (PyBytes bs)
    then show ?thesis
      using filter_entries_no_dict [of "map (\<lambda>b. PyInt (int b)) bs" selected_relations]
      by simp
  qed simp_all
  with Inr show ?thesis
    by (simp add: filter_family_history_def filter_family_history_try_def)
qed

theorem filter_family_history_fail_soft_witness:
  "\<not> is_entry_sequence ((\<lambda>h. Inl SyntaxError) ''not a list'')
   \<and> filter_family_history (\<lambda>h. Inl SyntaxError) [''Parent''] ''not a list'' = []
   \<and> \<not> is_entry_sequence ((\<lambda>h. Inr (PyStr ''not a list'')) ''not a list'')
   \<and> filter_family_history (\<lambda>h. Inr (PyStr ''not a list'')) [''Parent''] ''not a list'' = []"
proof -
  have a: "\<not> is_entry_sequence ((\<lambda>h. Inl SyntaxError) ''not a list'')"
    by simp
  have b: "\<not> is_entry_sequence ((\<lambda>h. Inr (PyStr ''not a list'')) ''not a list'')"
    by simp
  from a b
    filter_family_history_fail_soft
      [of "\<lambda>h. Inl SyntaxError" "''not a list''" "[''Parent'']"]
    filter_family_history_fail_soft
      [of "\<lambda>h. Inr (PyStr ''not a list'')" "''not a list''" "[''Parent'']"]
  show ?thesis
    by simp
qed

text \<open>
  C7. The claim: an entry without a \<open>relation\<close> or \<open>condition\<close> key is skipped and the
  conditions of the well-formed entries are still returned. In the code the missing key
  raises KeyError inside the comprehension and the \<open>except\<close> returns \<open>[]\<close> for the
  whole payload, while the loop that collects the selectable relations reads the same
  key with a default and goes on.
\<close>

theorem missing_key_empties_payload:
  "filter_family_history
     (\<lambda>h. Inr (PyList
        [PyDict [(KStr ''relation'', PyStr ''mother''), (KStr ''condition'', PyStr ''hypertension'')],
         PyDict [(KStr ''condition'', PyStr ''x'')]]))
     [''Parent''] history = []
   \<and> filter_family_history
     (\<lambda>h. Inr (PyList
        [PyDict [(KStr ''relation'', PyStr ''mother''), (KStr ''condition'', PyStr ''hypertension'')]]))
     [''Parent''] history = [PyStr ''hypertension'']
   \<and> filter_family_history
     (\<lambda>h. Inr (PyList
        [PyDict [(KStr ''relation'', PyStr ''mother''), (KStr ''condition'', PyStr ''hypertension'')],
         PyDict [(KStr ''relation'', PyStr ''mother'')]]))
     [''Parent''] history = []
   \<and> update_relations {}
        [PyDict [(KStr ''relation'', PyStr ''mother''), (KStr ''condition'', PyStr ''hypertension'')],
         PyDict [(KStr ''condition'', PyStr ''x'')]]
      = {''Other relatives'', ''Parent''}"
proof -
  have m: "standardize_relation ''mother'' = Some ''Parent''"
    by code_simp
  have e: "standardize_relation [] = Some ''Other relatives''"
    by code_simp
  show ?thesis
    by (simp add: filter_family_history_def filter_family_history_try_def in_selected_def m e)
qed

section \<open>Linker: join, age filter, deduplication\<close>

lemma join_row_simps:
  "SUBJECT_ID (join_row n po) = SUBJECT_ID n"
  "MAIN_PATHOLOGY (join_row n po) = MAIN_PATHOLOGY n"
  "DOB (join_row n None) = None"
  "DOD_HOSP (join_row n None) = None"
  "GENDER (join_row n None) = None"
  "DOB (join_row n (Some p)) = P_DOB p"
  "DOD_HOSP (join_row n (Some p)) = P_DOD_HOSP p"
  "GENDER (join_row n (Some p)) = P_GENDER p"
  by (simp_all add: join_row_def note_row.defs joined_row.defs split: option.splits)

lemma with_age_simps:
  "AGE (with_age j) = age_of j"
  "SUBJECT_ID (with_age j) = SUBJECT_ID j"
  "MAIN_PATHOLOGY (with_age j) = MAIN_PATHOLOGY j"
  "GENDER (with_age j) = GENDER j"
  by (simp_all add: with_age_def joined_row.defs merged_row.defs)

lemma age_of_join_row:
  "age_of (join_row n None) = None"
  "age_of (join_row n (Some p)) =
     (case P_DOD_HOSP p of None \<Rightarrow> None
      | Some dod \<Rightarrow> (case P_DOB p of None \<Rightarrow> None | Some dob \<Rightarrow> Some (year dod - year dob)))"
  by (simp_all add: age_of_def join_row_simps split: option.splits)

lemma set_matching_patients:
  "set (matching_patients n patients) = {p \<in> set patients. P_SUBJECT_ID p = SUBJECT_ID n}"
  by (simp add: matching_patients_def)

lemma in_merge_note:
  "j \<in> set (merge_note patients n) \<longleftrightarrow>
     (matching_patients n patients = [] \<and> j = join_row n None)
     \<or> (\<exists>p \<in> set patients. P_SUBJECT_ID p = SUBJECT_ID n \<and> j = join_row n (Some p))"
proof (cases "matching_patients n patients")
  case Nil
  then have "set (matching_patients n patients) = {}"
    by simp
  then have "\<forall>p \<in> set patients. P_SUBJECT_ID p \<noteq> SUBJECT_ID n"
    unfolding set_matching_patients by blast
  with Nil show ?thesis
    by (auto simp: merge_note_def)
next
  case (Cons p ps)
  then have m: "matching_patients n patients \<noteq> []"
    by simp
  from Cons have "merge_note patients n =
      map (\<lambda>q. join_row n (Some q)) (matching_patients n patients)"
    by (simp add: merge_note_def)
  then have s: "set (merge_note patients n) =
      (\<lambda>q. join_row n (Some q)) ` {p \<in> set patients. P_SUBJECT_ID p = SUBJECT_ID n}"
    by (simp add: set_matching_patients)
  show ?thesis
    unfolding s using m by blast
qed

lemma in_merge_left:
  "j \<in> set (merge_left notes patients) \<longleftrightarrow>
     (\<exists>n \<in> set notes.
        (matching_patients n patients = [] \<and> j = join_row n None)
        \<or> (\<exists>p \<in> set patients. P_SUBJECT_ID p = SUBJECT_ID n \<and> j = join_row n (Some p)))"
  by (simp add: merge_left_def in_merge_note)

lemma set_drop_duplicates_from: "set (drop_duplicates_from seen rows) \<subseteq> set rows"
  by (induction rows arbitrary: seen) auto

lemma set_merged_df: "set (merged_df notes patients) \<subseteq> set (age_filtered notes patients)"
  by (simp add: merged_df_def drop_duplicates_def set_drop_duplicates_from)

lemma age_filtered_plausible: "r \<in> set (age_filtered notes patients) \<Longrightarrow> plausible r"
  by (simp add: age_filtered_def)

lemma plausible_iff: "plausible r \<longleftrightarrow> (\<exists>a. AGE r = Some a \<and> 0 \<le> a \<and> a \<le> 100)"
  by (simp add: plausible_def split: option.splits)

lemma rows_of_drop_duplicates_from:
  "rows_of s (drop_duplicates_from seen rows) =
     (if s \<in> set seen then [] else take 1 (rows_of s rows))"
  by (induction rows arbitrary: seen) (auto simp: rows_of_def)

lemma rows_of_merged_df:
  "rows_of s (merged_df notes patients) = take 1 (rows_of s (age_filtered notes patients))"
  by (simp add: merged_df_def drop_duplicates_def rows_of_drop_duplicates_from)

lemma drop_duplicates_from_not_seen:
  "r \<in> set (drop_duplicates_from seen rows) \<Longrightarrow> SUBJECT_ID r \<notin> set seen"
proof (induction rows arbitrary: seen)
  case Nil
  then show ?case by simp
next
  case (Cons x xs)
  show ?case
  proof (cases "SUBJECT_ID x \<in> set seen")
    case True
    with Cons.prems have "r \<in> set (drop_duplicates_from seen xs)" by simp
    then show ?thesis by (rule Cons.IH)
  next
    case False
    with Cons.prems have "r = x \<or> r \<in> set (drop_duplicates_from (SUBJECT_ID x # seen) xs)"
      by simp
    then show ?thesis
    proof
      assume "r = x"
      with False show ?thesis by simp
    next
      assume "r \<in> set (drop_duplicates_from (SUBJECT_ID x # seen) xs)"
      then have "SUBJECT_ID r \<notin> set (SUBJECT_ID x # seen)" by (rule Cons.IH)
      then show ?thesis by simp
    qed
  qed
qed

lemma distinct_drop_duplicates_from:
  "distinct (map SUBJECT_ID (drop_duplicates_from seen rows))"
proof (induction rows arbitrary: seen)
  case Nil
  then show ?case by simp
next
  case (Cons x xs)
  have "SUBJECT_ID x \<notin> SUBJECT_ID ` set (drop_duplicates_from (SUBJECT_ID x # seen) xs)"
  proof
    assume "SUBJECT_ID x \<in> SUBJECT_ID ` set (drop_duplicates_from (SUBJECT_ID x # seen) xs)"
    then obtain r where r: "r \<in> set (drop_duplicates_from (SUBJECT_ID x # seen) xs)"
      and e: "SUBJECT_ID r = SUBJECT_ID x"
      by auto
    from r have "SUBJECT_ID r \<notin> set (SUBJECT_ID x # seen)"
      by (rule drop_duplicates_from_not_seen)
    with e show False by simp
  qed
  with Cons.IH show ?case by simp
qed

lemma distinct_merged_df: "distinct (map SUBJECT_ID (merged_df notes patients))"
  by (simp add: merged_df_def drop_duplicates_def distinct_drop_duplicates_from)

text \<open>
  C8. Every merged record has an \<open>AGE\<close> between 0 and 100 inclusive, and a joined row
  whose \<open>AGE\<close> is below 0 or above 100 is neither in the age-filtered table nor among
  the merged records.
\<close>

theorem merged_age_in_range:
  "(\<forall>r \<in> set (merged_df notes patients). \<exists>a. AGE r = Some a \<and> 0 \<le> a \<and> a \<le> 100)
   \<and> (\<forall>j \<in> set (map with_age (merge_left notes patients)).
        \<forall>a. AGE j = Some a \<and> (a < 0 \<or> 100 < a) \<longrightarrow>
          j \<notin> set (age_filtered notes patients) \<and> j \<notin> set (merged_df notes patients))"
proof (intro conjI ballI allI impI)
  fix r assume "r \<in> set (merged_df notes patients)"
  then have "plausible r"
    using set_merged_df age_filtered_plausible by blast
  then show "\<exists>a. AGE r = Some a \<and> 0 \<le> a \<and> a \<le> 100"
    by (simp add: plausible_iff)
next
  fix j :: merged_row and a
  assume "AGE j = Some a \<and> (a < 0 \<or> 100 < a)"
  then have n: "\<not> plausible j"
    by (auto simp: plausible_def)
  then show "j \<notin> set (age_filtered notes patients)"
    using age_filtered_plausible by blast
  with set_merged_df show "j \<notin> set (merged_df notes patients)"
    by blast
qed

theorem merged_age_in_range_witness:
  "merged_flu \<in> set (merged_df scenario_notes scenario_patients)
   \<and> (\<exists>a. AGE merged_flu = Some a \<and> 0 \<le> a \<and> a \<le> 100)
   \<and> merged_too_old \<in> set (map with_age (merge_left scenario_notes scenario_patients))
   \<and> AGE merged_too_old = Some 200
   \<and> merged_too_old \<notin> set (merged_df scenario_notes scenario_patients)"
proof -
  have f: "merged_flu \<in> set (merged_df scenario_notes scenario_patients)"
    by code_simp
  have o: "merged_too_old \<in> set (map with_age (merge_left scenario_notes scenario_patients))"
    by code_simp
  have a: "AGE merged_too_old = Some 200"
    by (simp add: merged_too_old_def)
  note t = merged_age_in_range [of scenario_notes scenario_patients]
  from t f have 1: "\<exists>a. AGE merged_flu = Some a \<and> 0 \<le> a \<and> a \<le> 100"
    by blast
  from t o a have 2: "merged_too_old \<notin> set (merged_df scenario_notes scenario_patients)"
    by auto
  from f 1 o a 2 show ?thesis
    by (intro conjI)
qed

text \<open>
  C3. The claim as stated fails: identifier 3 is in the notes table and in no patient
  row, its joined row has a null \<open>AGE\<close> and the age filter drops it, so no merged
  record of identifier 3 survives.
\<close>

theorem dedup_exactly_one_counterexample:
  "note_no_patient \<in> set scenario_notes
   \<and> length (rows_of (SUBJECT_ID note_no_patient) (merged_df scenario_notes scenario_patients)) \<noteq> 1"
  by code_simp

text \<open>
  C3, amended. For every patient identifier the merged records of that identifier are
  the first row of that identifier in the age-filtered join, if there is one: at most
  one record survives, and exactly one does when some joined row of the identifier
  passes the age filter.
\<close>

theorem dedup_first_surviving_row:
  "rows_of s (merged_df notes patients) = take 1 (rows_of s (age_filtered notes patients))
   \<and> length (rows_of s (merged_df notes patients)) \<le> 1
   \<and> (length (rows_of s (merged_df notes patients)) = 1
        \<longleftrightarrow> (\<exists>r \<in> set (age_filtered notes patients). SUBJECT_ID r = s))"
proof -
  have a: "rows_of s (merged_df notes patients) = take 1 (rows_of s (age_filtered notes patients))"
    by (rule rows_of_merged_df)
  have b: "(\<exists>r \<in> set (age_filtered notes patients). SUBJECT_ID r = s)
            \<longleftrightarrow> rows_of s (age_filtered notes patients) \<noteq> []"
    by (auto simp: rows_of_def filter_empty_conv)
  show ?thesis
    unfolding a b by (cases "rows_of s (age_filtered notes patients)") simp_all
qed

theorem dedup_first_surviving_row_witness:
  "length (rows_of 1 (age_filtered scenario_notes scenario_patients)) = 2
   \<and> rows_of 1 (merged_df scenario_notes scenario_patients) = [merged_flu]
   \<and> length (rows_of 1 (merged_df scenario_notes scenario_patients)) = 1"
proof -
  have e: "\<exists>r \<in> set (age_filtered scenario_notes scenario_patients). SUBJECT_ID r = 1"
    by code_simp
  have l: "length (rows_of 1 (age_filtered scenario_notes scenario_patients)) = 2"
    by code_simp
  have f: "take 1 (rows_of 1 (age_filtered scenario_notes scenario_patients)) = [merged_flu]"
    by code_simp
  from e l f dedup_first_surviving_row [of 1 scenario_notes scenario_patients]
  show ?thesis
    by simp
qed

section \<open>Filter Engine and Aggregator: where the rows come from\<close>

lemma filtered_df_Returns:
  "filtered_df dt merged q = Returns rows \<Longrightarrow> \<exists>P. rows = filter P merged"
proof (cases "q = []")
  case True
  assume "filtered_df dt merged q = Returns rows"
  with True have "rows = filter (\<lambda>r. True) merged"
    by (simp add: filtered_df_def)
  then show ?thesis by blast
next
  case False
  assume "filtered_df dt merged q = Returns rows"
  with False show ?thesis
    by (auto simp: filtered_df_def split: compiled.splits dtype.splits)
qed

lemma filtered_df_subset: "filtered_df dt merged q = Returns rows \<Longrightarrow> set rows \<subseteq> set merged"
  using filtered_df_Returns by fastforce

lemma filtered_df_distinct:
  "filtered_df dt merged q = Returns rows \<Longrightarrow> distinct (map SUBJECT_ID merged) \<Longrightarrow>
   distinct (map SUBJECT_ID rows)"
  using filtered_df_Returns distinct_map_filter by blast

lemma set_dropna: "set (dropna xs) = {x. Some x \<in> set xs}"
  by (induction xs rule: dropna.induct) auto

lemma set_group_keys: "set (group_keys rows) = {k. \<exists>r \<in> set rows. key_of r = Some k}"
  by (force simp: group_keys_def set_dropna)

lemma distinct_group_keys: "distinct (group_keys rows)"
  by (simp add: group_keys_def)

lemma aggregated_key_aggregate_group: "aggregated_key (aggregate_group rows k) = k"
  by (simp add: aggregated_key_def aggregate_group_def Let_def)

lemma map_aggregated_key: "map aggregated_key (aggregated_df rows) = group_keys rows"
  by (simp add: aggregated_df_def aggregated_key_aggregate_group comp_def)

lemma key_of_id: "key_of r = Some k \<Longrightarrow> fst k = SUBJECT_ID r"
  by (auto simp: key_of_def split: option.splits)

lemma A_SUBJECT_ID_key: "A_SUBJECT_ID a = fst (aggregated_key a)"
  by (simp add: aggregated_key_def)

lemma aggregated_df_ids:
  "A_SUBJECT_ID ` set (aggregated_df rows) \<subseteq> SUBJECT_ID ` set rows"
proof
  fix s assume "s \<in> A_SUBJECT_ID ` set (aggregated_df rows)"
  then obtain a where a: "a \<in> set (aggregated_df rows)" and s: "s = A_SUBJECT_ID a"
    by blast
  from a have "aggregated_key a \<in> set (map aggregated_key (aggregated_df rows))"
    by simp
  then have "aggregated_key a \<in> set (group_keys rows)"
    by (simp add: map_aggregated_key)
  then obtain r where r: "r \<in> set rows" and k: "key_of r = Some (aggregated_key a)"
    by (auto simp: set_group_keys)
  from k have "fst (aggregated_key a) = SUBJECT_ID r"
    by (rule key_of_id)
  with s r show "s \<in> SUBJECT_ID ` set rows"
    by (simp add: A_SUBJECT_ID_key)
qed

section \<open>Null ages\<close>

lemma merged_df_origin:
  assumes "r \<in> set (merged_df notes patients)"
  shows "\<exists>n \<in> set notes. \<exists>p \<in> set patients.
           P_SUBJECT_ID p = SUBJECT_ID n \<and> P_DOB p \<noteq> None \<and> P_DOD_HOSP p \<noteq> None
           \<and> r = with_age (join_row n (Some p))"
proof -
  from assms have af: "r \<in> set (age_filtered notes patients)"
    using set_merged_df by blast
  then have pl: "plausible r"
    by (rule age_filtered_plausible)
  from af obtain j where j: "j \<in> set (merge_left notes patients)" and r: "r = with_age j"
    by (auto simp: age_filtered_def)
  from pl r have age: "age_of j \<noteq> None"
    by (auto simp: plausible_iff with_age_simps)
  from j obtain n where n: "n \<in> set notes"
    and c: "(matching_patients n patients = [] \<and> j = join_row n None)
       \<or> (\<exists>p \<in> set patients. P_SUBJECT_ID p = SUBJECT_ID n \<and> j = join_row n (Some p))"
    unfolding in_merge_left by blast
  from c age obtain p where p: "p \<in> set patients" "P_SUBJECT_ID p = SUBJECT_ID n"
    and jp: "j = join_row n (Some p)"
    by (auto simp: age_of_join_row)
  from age jp have "P_DOB p \<noteq> None \<and> P_DOD_HOSP p \<noteq> None"
    by (auto simp: age_of_join_row split: option.splits)
  with n p jp r show ?thesis
    by blast
qed

text \<open>
  C9. The age filter drops every row with a null \<open>AGE\<close>: each merged record has an
  \<open>AGE\<close> and is the join of a note with a patient row of the same identifier that has
  a birth date and a death date. A note whose identifier has no patient row, or only
  patient rows without a death date, has no merged record, and the filtered rows and
  the aggregated rows carry identifiers of merged records only, whatever the row mask
  of the filter.
\<close>

theorem merged_age_never_null:
  "(\<forall>r \<in> set (merged_df notes patients).
      AGE r \<noteq> None
      \<and> (\<exists>n \<in> set notes. \<exists>p \<in> set patients.
           P_SUBJECT_ID p = SUBJECT_ID n \<and> P_DOB p \<noteq> None \<and> P_DOD_HOSP p \<noteq> None
           \<and> r = with_age (join_row n (Some p))))
   \<and> (\<forall>n \<in> set notes.
        (\<forall>p \<in> set patients. P_SUBJECT_ID p = SUBJECT_ID n \<longrightarrow> P_DOD_HOSP p = None) \<longrightarrow>
        SUBJECT_ID n \<notin> SUBJECT_ID ` set (merged_df notes patients))
   \<and> (\<forall>dt q rows. filtered_df dt (merged_df notes patients) q = Returns rows \<longrightarrow>
        set rows \<subseteq> set (merged_df notes patients)
        \<and> A_SUBJECT_ID ` set (aggregated_df rows) \<subseteq> SUBJECT_ID ` set (merged_df notes patients))
   \<and> (\<forall>keep. A_SUBJECT_ID ` set (aggregated_df (filter keep (merged_df notes patients)))
        \<subseteq> SUBJECT_ID ` set (merged_df notes patients))"
proof (intro conjI ballI allI impI)
  fix r assume r: "r \<in> set (merged_df notes patients)"
  then have "plausible r"
    using set_merged_df age_filtered_plausible by blast
  then show "AGE r \<noteq> None"
    by (auto simp: plausible_iff)
  from r show "\<exists>n \<in> set notes. \<exists>p \<in> set patients.
           P_SUBJECT_ID p = SUBJECT_ID n \<and> P_DOB p \<noteq> None \<and> P_DOD_HOSP p \<noteq> None
           \<and> r = with_age (join_row n (Some p))"
    by (rule merged_df_origin)
next
  fix n :: note_row
  assume h: "\<forall>p \<in> set patients. P_SUBJECT_ID p = SUBJECT_ID n \<longrightarrow> P_DOD_HOSP p = None"
  show "SUBJECT_ID n \<notin> SUBJECT_ID ` set (merged_df notes patients)"
  proof
    assume "SUBJECT_ID n \<in> SUBJECT_ID ` set (merged_df notes patients)"
    then obtain r where r: "r \<in> set (merged_df notes patients)" and e: "SUBJECT_ID r = SUBJECT_ID n"
      by auto
    from merged_df_origin [OF r] obtain n' p where p: "p \<in> set patients"
      and m: "P_SUBJECT_ID p = SUBJECT_ID n'" and d: "P_DOD_HOSP p \<noteq> None"
      and w: "r = with_age (join_row n' (Some p))"
      by blast
    from w have "SUBJECT_ID r = SUBJECT_ID n'"
      by (simp add: with_age_simps join_row_simps)
    with e m have "P_SUBJECT_ID p = SUBJECT_ID n"
      by simp
    with h p have "P_DOD_HOSP p = None"
      by simp
    with d show False
      by simp
  qed
next
  fix dt q rows
  assume f: "filtered_df dt (merged_df notes patients) q = Returns rows"
  then show s: "set rows \<subseteq> set (merged_df notes patients)"
    by (rule filtered_df_subset)
  from aggregated_df_ids [of rows] s
  show "A_SUBJECT_ID ` set (aggregated_df rows) \<subseteq> SUBJECT_ID ` set (merged_df notes patients)"
    by blast
next
  fix keep
  have "set (filter keep (merged_df notes patients)) \<subseteq> set (merged_df notes patients)"
    by simp
  with aggregated_df_ids [of "filter keep (merged_df notes patients)"]
  show "A_SUBJECT_ID ` set (aggregated_df (filter keep (merged_df notes patients)))
        \<subseteq> SUBJECT_ID ` set (merged_df notes patients)"
    by blast
qed

theorem merged_age_never_null_witness:
  "merged_flu \<in> set (merged_df scenario_notes scenario_patients)
   \<and> AGE merged_flu \<noteq> None
   \<and> note_no_death \<in> set scenario_notes
   \<and> map P_DOD_HOSP (matching_patients note_no_death scenario_patients) = [None]
   \<and> SUBJECT_ID note_no_death \<notin> SUBJECT_ID ` set (merged_df scenario_notes scenario_patients)
   \<and> note_no_patient \<in> set scenario_notes
   \<and> matching_patients note_no_patient scenario_patients = []
   \<and> SUBJECT_ID note_no_patient \<notin> SUBJECT_ID ` set (merged_df scenario_notes scenario_patients)
   \<and> filtered_df (pathology_dtype scenario_notes) (merged_df scenario_notes scenario_patients)
       ''flu'' = Returns [merged_flu]
   \<and> A_SUBJECT_ID ` set (aggregated_df [merged_flu])
       \<subseteq> SUBJECT_ID ` set (merged_df scenario_notes scenario_patients)"
proof -
  have f: "merged_flu \<in> set (merged_df scenario_notes scenario_patients)"
    by code_simp
  have d: "note_no_death \<in> set scenario_notes"
    by (simp add: scenario_notes_def)
  have dh: "\<forall>p \<in> set scenario_patients.
         P_SUBJECT_ID p = SUBJECT_ID note_no_death \<longrightarrow> P_DOD_HOSP p = None"
    by (simp add: scenario_patients_def note_no_death_def)
  have n: "note_no_patient \<in> set scenario_notes"
    by (simp add: scenario_notes_def)
  have nh: "\<forall>p \<in> set scenario_patients. P_SUBJECT_ID p \<noteq> SUBJECT_ID note_no_patient"
    by (simp add: scenario_patients_def note_no_patient_def)
  have q: "filtered_df (pathology_dtype scenario_notes) (merged_df scenario_notes scenario_patients)
       ''flu'' = Returns [merged_flu]"
    by code_simp
  note t = merged_age_never_null [of scenario_notes scenario_patients]
  from t f have 1: "AGE merged_flu \<noteq> None"
    by blast
  from t d dh have 2: "SUBJECT_ID note_no_death \<notin> SUBJECT_ID ` set (merged_df scenario_notes scenario_patients)"
    by blast
  from nh have nh': "\<forall>p \<in> set scenario_patients.
         P_SUBJECT_ID p = SUBJECT_ID note_no_patient \<longrightarrow> P_DOD_HOSP p = None"
    by blast
  from t n nh' have 3: "SUBJECT_ID note_no_patient \<notin> SUBJECT_ID ` set (merged_df scenario_notes scenario_patients)"
    by blast
  from t q have 4: "A_SUBJECT_ID ` set (aggregated_df [merged_flu])
       \<subseteq> SUBJECT_ID ` set (merged_df scenario_notes scenario_patients)"
    by blast
  have dm: "map P_DOD_HOSP (matching_patients note_no_death scenario_patients) = [None]"
    by code_simp
  have nm: "matching_patients note_no_patient scenario_patients = []"
    by code_simp
  from f 1 d dm 2 n nm 3 q 4 show ?thesis
    by (intro conjI)
qed

section \<open>Aggregator: one row per group\<close>

lemma A_SUBJECT_ID_aggregate_group: "A_SUBJECT_ID (aggregate_group rows k) = fst k"
  by (simp add: aggregate_group_def Let_def)

lemma aggregated_of_aggregated_df:
  "aggregated_of s (aggregated_df rows) =
     map (aggregate_group rows) (filter (\<lambda>k. fst k = s) (group_keys rows))"
  by (simp add: aggregated_of_def aggregated_df_def filter_map comp_def
      A_SUBJECT_ID_aggregate_group)

lemma keys_of_identifier:
  assumes d: "distinct (map SUBJECT_ID rows)" and r: "r \<in> set rows"
  shows "{k \<in> set (group_keys rows). fst k = SUBJECT_ID r} = {k. key_of r = Some k}"
proof (intro set_eqI iffI)
  fix k assume "k \<in> {k \<in> set (group_keys rows). fst k = SUBJECT_ID r}"
  then obtain r' where r': "r' \<in> set rows" and k: "key_of r' = Some k"
    and f: "fst k = SUBJECT_ID r"
    by (auto simp: set_group_keys)
  from k have "fst k = SUBJECT_ID r'"
    by (rule key_of_id)
  with f have "SUBJECT_ID r' = SUBJECT_ID r"
    by simp
  moreover from d have "inj_on SUBJECT_ID (set rows)"
    by (simp add: distinct_map)
  ultimately have "r' = r"
    using r r' by (simp add: inj_on_def)
  with k show "k \<in> {k. key_of r = Some k}"
    by simp
next
  fix k assume "k \<in> {k. key_of r = Some k}"
  then have k: "key_of r = Some k"
    by simp
  with r have "k \<in> set (group_keys rows)"
    by (auto simp: set_group_keys)
  moreover from k have "fst k = SUBJECT_ID r"
    by (rule key_of_id)
  ultimately show "k \<in> {k \<in> set (group_keys rows). fst k = SUBJECT_ID r}"
    by simp
qed

lemma key_of_None: "key_of r = None \<longleftrightarrow> MAIN_PATHOLOGY r = None \<or> GENDER r = None \<or> AGE r = None"
  by (simp add: key_of_def split: option.splits)

lemma aggregated_of_count:
  assumes d: "distinct (map SUBJECT_ID rows)" and r: "r \<in> set rows"
  shows "length (aggregated_of (SUBJECT_ID r) (aggregated_df rows)) =
           (if key_of r = None then 0 else 1)"
proof -
  have "length (aggregated_of (SUBJECT_ID r) (aggregated_df rows)) =
          length (filter (\<lambda>k. fst k = SUBJECT_ID r) (group_keys rows))"
    by (simp add: aggregated_of_aggregated_df)
  also have "\<dots> = card {k \<in> set (group_keys rows). fst k = SUBJECT_ID r}"
    using distinct_group_keys [of rows]
    by (simp add: distinct_length_filter Int_def conj_commute)
  also have "\<dots> = card {k. key_of r = Some k}"
    by (simp add: keys_of_identifier [OF d r])
  also have "\<dots> = (if key_of r = None then 0 else 1)"
  proof (cases "key_of r")
    case None
    then show ?thesis by simp
  next
    case (Some k)
    then have "{k'. key_of r = Some k'} = {k}"
      by auto
    with Some show ?thesis by simp
  qed
  finally show ?thesis .
qed

text \<open>
  C4, amended. A filtered record set is the merged table under a row mask, whatever
  the query. For every filtered record set the aggregated table has exactly one row
  per group key (patient identifier, pathology, gender, age) met in a filtered record
  with no null among these columns, and a patient identifier of the filtered set appears
  exactly once in the aggregated table when its record has a pathology and a gender,
  and not at all when one of the two is null.
\<close>

theorem aggregator_one_row_per_group:
  "rows = filter keep (merged_df notes patients)
     \<or> filtered_df dt (merged_df notes patients) q = Returns rows \<Longrightarrow>
     distinct (map aggregated_key (aggregated_df rows))
     \<and> set (map aggregated_key (aggregated_df rows)) = {k. \<exists>r \<in> set rows. key_of r = Some k}
     \<and> (\<forall>r \<in> set rows.
          length (aggregated_of (SUBJECT_ID r) (aggregated_df rows)) =
            (if MAIN_PATHOLOGY r = None \<or> GENDER r = None then 0 else 1))"
proof (intro conjI ballI)
  assume "rows = filter keep (merged_df notes patients)
     \<or> filtered_df dt (merged_df notes patients) q = Returns rows"
  then obtain P where f: "rows = filter P (merged_df notes patients)"
    using filtered_df_Returns by blast
  show "distinct (map aggregated_key (aggregated_df rows))"
    by (simp add: map_aggregated_key distinct_group_keys)
  show "set (map aggregated_key (aggregated_df rows)) = {k. \<exists>r \<in> set rows. key_of r = Some k}"
    by (simp only: map_aggregated_key set_group_keys)
  fix r assume r: "r \<in> set rows"
  from f have d: "distinct (map SUBJECT_ID rows)"
    by (simp add: distinct_map_filter distinct_merged_df)
  from f r have "r \<in> set (merged_df notes patients)"
    by simp
  then have "plausible r"
    using set_merged_df age_filtered_plausible by blast
  then have "AGE r \<noteq> None"
    by (auto simp: plausible_iff)
  then have "key_of r = None \<longleftrightarrow> MAIN_PATHOLOGY r = None \<or> GENDER r = None"
    by (auto simp: key_of_None)
  with aggregated_of_count [OF d r]
  show "length (aggregated_of (SUBJECT_ID r) (aggregated_df rows)) =
            (if MAIN_PATHOLOGY r = None \<or> GENDER r = None then 0 else 1)"
    by simp
qed

theorem aggregator_one_row_per_group_witness:
  "filtered_df (pathology_dtype scenario_notes) (merged_df scenario_notes scenario_patients)
       ''flu'' = Returns [merged_flu]
   \<and> merged_flu \<in> set [merged_flu]
   \<and> MAIN_PATHOLOGY merged_flu \<noteq> None \<and> GENDER merged_flu \<noteq> None
   \<and> map aggregated_key (aggregated_df [merged_flu]) = [(1, ''Flu'', ''M'', 50)]
   \<and> length (aggregated_of (SUBJECT_ID merged_flu) (aggregated_df [merged_flu])) = 1"
proof -
  have q: "filtered_df (pathology_dtype scenario_notes) (merged_df scenario_notes scenario_patients)
       ''flu'' = Returns [merged_flu]"
    by code_simp
  have p: "MAIN_PATHOLOGY merged_flu \<noteq> None \<and> GENDER merged_flu \<noteq> None"
    by (simp add: merged_flu_def)
  have k: "map aggregated_key (aggregated_df [merged_flu]) = [(1, ''Flu'', ''M'', 50)]"
    by code_simp
  from aggregator_one_row_per_group [OF disjI2 [OF q]] p
  have "length (aggregated_of (SUBJECT_ID merged_flu) (aggregated_df [merged_flu])) = 1"
    by simp
  with q p k show ?thesis
    by simp
qed

text \<open>
  C4. The claim as stated fails: with the empty query the record of patient 1 without a
  pathology label is in the filtered set, and \<open>groupby\<close> drops its group, so
  identifier 1 is in no aggregated row.
\<close>

theorem aggregator_null_key_counterexample:
  "filtered_df (pathology_dtype [note_unlabelled]) (merged_df [note_unlabelled] scenario_patients) []
     = Returns [merged_unlabelled]
   \<and> SUBJECT_ID merged_unlabelled = 1
   \<and> aggregated_of 1 (aggregated_df [merged_unlabelled]) = []"
  by code_simp

section \<open>Filter Engine: literal queries and regular expressions\<close>

lemma not_unsupported:
  "set q \<inter> set special_chars = {} \<Longrightarrow> \<not> list_ex (\<lambda>c. c \<in> set unsupported_chars) q"
  by (auto simp: list_ex_iff special_chars_def unsupported_chars_def)

lemma re_parse_literal:
  "set q \<inter> set special_chars = {} \<Longrightarrow>
   re_parse d q = (if d = 0 then Some (map Lit q) else None)"
  by (induction q) (auto simp: special_chars_def)

lemma re_compile_literal:
  "set q \<inter> set special_chars = {} \<Longrightarrow> re_compile q = Pattern (map Lit q)"
  by (simp add: re_compile_def not_unsupported re_parse_literal)

lemma match_here_literal: "match_here (map Lit q) s = prefix (lower q) (lower s)"
proof (induction q arbitrary: s)
  case Nil
  then show ?case by (simp add: lower_def)
next
  case (Cons c cs)
  then show ?case by (cases s) (auto simp: lower_def)
qed

lemma re_search_literal: "re_search (map Lit q) s = sublist (lower q) (lower s)"
proof (induction s)
  case Nil
  then show ?case by (cases q) (simp_all add: lower_def)
next
  case (Cons c cs)
  have "lower (c # cs) = lower_char c # lower cs"
    by (simp add: lower_def)
  with Cons show ?case
    by (simp add: match_here_literal sublist_Cons_right del: match_here.simps)
qed

lemma filtered_df_literal:
  assumes "q \<noteq> []" and "set q \<inter> set special_chars = {}"
  shows "filtered_df ObjectDtype merged q =
           Returns (filter (\<lambda>r. contains_literally q (MAIN_PATHOLOGY r)) merged)"
proof -
  have "str_contains (map Lit q) cell = contains_literally q cell" for cell
    by (simp add: str_contains_def contains_literally_def re_search_literal split: option.splits)
  with assms show ?thesis
    by (simp add: filtered_df_def re_compile_literal)
qed

lemma filtered_df_float64:
  "q \<noteq> [] \<Longrightarrow> filtered_df Float64Dtype merged q = Raises AttributeError"
  by (simp add: filtered_df_def)

lemma filtered_df_all_null_column:
  "filtered_df (pathology_dtype [note_unlabelled]) (merged_df [note_unlabelled] scenario_patients)
     ''flu'' = Raises AttributeError"
  by code_simp

lemma filtered_df_empty_query: "filtered_df dt merged [] = Returns merged"
  by (simp add: filtered_df_def)

lemma filtered_df_case_insensitive:
  assumes "q \<noteq> []" and "set q \<inter> set special_chars = {}"
    and "set q' \<inter> set special_chars = {}" and "lower q' = lower q"
  shows "filtered_df ObjectDtype merged q' = filtered_df ObjectDtype merged q"
proof -
  from assms(1,4) have "q' \<noteq> []"
    by (auto simp: lower_def)
  moreover from assms(4) have "contains_literally q' = contains_literally q"
    by (simp add: contains_literally_def fun_eq_iff split: option.splits)
  ultimately show ?thesis
    using assms by (simp add: filtered_df_literal)
qed

text \<open>
  C1. The claim: a non-empty query returns exactly the records whose pathology contains
  the query as a literal substring, case aside. That holds for a query without special
  characters (\<open>filtered_df_literal\<close>), and the empty query returns the table
  (\<open>filtered_df_empty_query\<close>). But the code leaves \<open>regex=True\<close>, so the query is a
  regular expression: the query "." returns the record of pathology "Flu", which has
  no dot; the query "Sepsis (severe)", a pathology label the selection list offers, does
  not return the record with that very label; the query "(" raises \<open>re.error\<close>.
\<close>

theorem regex_query_not_literal:
  "filtered_df ObjectDtype [merged_flu] ''.'' = Returns [merged_flu]
   \<and> \<not> contains_literally ''.'' (MAIN_PATHOLOGY merged_flu)
   \<and> filtered_df ObjectDtype [merged_sepsis] ''Sepsis (severe)'' = Returns []
   \<and> contains_literally ''Sepsis (severe)'' (MAIN_PATHOLOGY merged_sepsis)
   \<and> filtered_df ObjectDtype [merged_flu] ''('' = Raises ReError"
proof -
  have 1: "filtered_df ObjectDtype [merged_flu] ''.'' = Returns [merged_flu]"
    by code_simp
  have 2: "\<not> contains_literally ''.'' (MAIN_PATHOLOGY merged_flu)"
    by code_simp
  have 3: "filtered_df ObjectDtype [merged_sepsis] ''Sepsis (severe)'' = Returns []"
    by code_simp
  have 4: "contains_literally ''Sepsis (severe)'' (MAIN_PATHOLOGY merged_sepsis)"
    by code_simp
  have 5: "filtered_df ObjectDtype [merged_flu] ''('' = Raises ReError"
    by code_simp
  from 1 2 3 4 5 show ?thesis
    by (intro conjI)
qed

end
